theory Spec2Isabelle
  imports Main "HOL-Library.AList" "HOL-Library.Multiset" "HOL-Library.Char_ord"
    "HOL-Library.List_Lexorder"
begin

section \<open>django-cube: the Cube class of cube.py\<close>

text \<open>
  The development follows \<^verbatim>\<open>src/django_cube/cube.py\<close> (Python 2: the code uses
  \<^verbatim>\<open>iteritems\<close> and a \<^verbatim>\<open>filter\<close> that returns a list).

  \<^item> An exception is a value of \<open>error\<close>; a call that may raise returns \<open>error + 'a\<close>.
  \<^item> A Python \<^verbatim>\<open>dict\<close> with string keys is an association list with distinct keys, in
    the order in which the dict iterates; what a dict \<^emph>\<open>is\<close> (its mapping) is \<open>map_of\<close>.
  \<^item> The only object the code ever mutates is the \<^verbatim>\<open>_constraint\<close> dict of a
    cube. These dicts live in a store (a list of dicts, a reference being an index), so
    that copying and aliasing are visible: a cube holds the reference of its dict.
    The \<^verbatim>\<open>measures\<close> and \<^verbatim>\<open>dimensions\<close> attributes are assigned once by
    \<^verbatim>\<open>__init__\<close> and never written again, and are kept as values.
  \<^item> A method is modelled at the level of its body: \<^verbatim>\<open>**extra_constraint\<close> is the
    dict the body receives, \<^verbatim>\<open>*dim_names\<close> the sequence of names.
  \<^item> A generator is modelled by what it produces when it is run to its end: the list of
    the yielded values, and the exception that ended it, if any.
\<close>

subsection \<open>Errors and data\<close>

datatype error =
    ValueError string
  | TypeError string
  | NotImplementedError string
  | AttributeError string

text \<open>\<^verbatim>\<open>raise ValueError('invalid dimension %s' % dim_name)\<close>: the error the
  specification calls InvalidDimension.\<close>

definition InvalidDimension :: "string \<Rightarrow> error" where
  "InvalidDimension dim_name = ValueError (''invalid dimension '' @ dim_name)"

type_synonym 'v dict = "(string \<times> 'v) list"

type_synonym 'v store = "'v dict list"

text \<open>\<^verbatim>\<open>Dimension.__init__(self, sample_space=[], name='')\<close>; the property
  \<^verbatim>\<open>name\<close> returns \<^verbatim>\<open>_name\<close>.\<close>

record 'v dimension =
  name :: string
  sample_space :: "'v list"

text \<open>\<^verbatim>\<open>Cube.__init__\<close> sets \<^verbatim>\<open>measures\<close>, \<^verbatim>\<open>dimensions\<close> and
  \<^verbatim>\<open>_constraint\<close>. The field \<open>constraint\<close> is the reference of the
  \<^verbatim>\<open>_constraint\<close> dict in the store. Measure objects are values of a type \<open>'m\<close>.\<close>

record ('m, 'v) cube =
  measures_c :: "'m list"
  dimensions :: "'v dimension list"
  constraint :: nat

text \<open>The dict a reference points to.\<close>

definition deref :: "'v store \<Rightarrow> nat \<Rightarrow> 'v dict" where
  "deref h r = h ! r"

text \<open>Allocation of a new dict object: the new reference and the extended store.\<close>

definition alloc :: "'v dict \<Rightarrow> 'v store \<Rightarrow> nat \<times> 'v store" where
  "alloc d h = (length h, h @ [d])"

text \<open>\<^verbatim>\<open>d[k] = v\<close> on the dict at reference \<open>r\<close>.\<close>

definition setitem :: "nat \<Rightarrow> string \<Rightarrow> 'v \<Rightarrow> 'v store \<Rightarrow> 'v store" where
  "setitem r k v h = h[r := AList.update k v (deref h r)]"

text \<open>\<^verbatim>\<open>Cube.__init__(self, measures, dimensions)\<close>: \<^verbatim>\<open>self._constraint = {}\<close>
  allocates a new, empty dict.\<close>

definition cube_init :: "'m list \<Rightarrow> 'v dimension list \<Rightarrow> 'v store \<Rightarrow> ('m, 'v) cube \<times> 'v store" where
  "cube_init ms ds h =
     (let (r, h') = alloc [] h
      in (\<lparr>measures_c = ms, dimensions = ds, constraint = r\<rparr>, h'))"

text \<open>The property \<^verbatim>\<open>dim_names\<close>: \<^verbatim>\<open>[d.name for d in self.dimensions]\<close>.\<close>

definition dim_names :: "('m, 'v) cube \<Rightarrow> string list" where
  "dim_names C = map name (dimensions C)"

text \<open>\<^verbatim>\<open>_check_dim_names\<close>: the loop raises at the first name that is not in
  \<^verbatim>\<open>self.dim_names\<close>.\<close>

fun check_dim_names :: "('m, 'v) cube \<Rightarrow> string list \<Rightarrow> error + unit" where
  "check_dim_names C [] = Inr ()"
| "check_dim_names C (dim_name # rest) =
     (if dim_name \<notin> set (dim_names C) then Inl (InvalidDimension dim_name)
      else check_dim_names C rest)"

text \<open>\<^verbatim>\<open>_check_constraint\<close>: \<^verbatim>\<open>self._check_dim_names(constraint.keys())\<close>.\<close>

definition check_constraint :: "('m, 'v) cube \<Rightarrow> 'v dict \<Rightarrow> error + unit" where
  "check_constraint C c = check_dim_names C (map fst c)"

text \<open>\<^verbatim>\<open>copy.deepcopy(self)\<close>: a new cube object whose attributes are deep copies.
  The copies of \<^verbatim>\<open>measures\<close> and \<^verbatim>\<open>dimensions\<close> are equal values; the copy of
  the \<^verbatim>\<open>_constraint\<close> dict is a newly allocated dict with the same items.\<close>

definition deepcopy :: "('m, 'v) cube \<Rightarrow> 'v store \<Rightarrow> ('m, 'v) cube \<times> 'v store" where
  "deepcopy C h =
     (let (r, h') = alloc (deref h (constraint C)) h
      in (C\<lparr>constraint := r\<rparr>, h'))"

text \<open>\<^verbatim>\<open>Cube.slice(self, **extra_constraint)\<close>: check, copy, then the loop
  \<^verbatim>\<open>for dim_name, value in extra_constraint.iteritems():
      cube_copy._constraint[dim_name] = value\<close>.\<close>

definition slice :: "('m, 'v) cube \<Rightarrow> 'v dict \<Rightarrow> 'v store \<Rightarrow> (error + ('m, 'v) cube) \<times> 'v store" where
  "slice C extra_constraint h =
     (case check_constraint C extra_constraint of
        Inl e \<Rightarrow> (Inl e, h)
      | Inr _ \<Rightarrow>
          (let (cube_copy, h1) = deepcopy C h;
               h2 = fold (\<lambda>(dim_name, value). setitem (constraint cube_copy) dim_name value)
                      extra_constraint h1
           in (Inr cube_copy, h2)))"

subsection \<open>Cubes derived from a root\<close>

text \<open>
  The cubes obtained from a root cube built by \<^verbatim>\<open>Cube(measures, dimensions)\<close>:
  the root itself, in the store its construction leaves; the result of a successful
  \<^verbatim>\<open>slice\<close> of such a cube; and such a cube in the store that any further call of
  \<^verbatim>\<open>slice\<close>, on any cube, leaves (so that derivations branch).
\<close>

inductive reachable :: "'m list \<Rightarrow> 'v dimension list \<Rightarrow> 'v store \<Rightarrow> ('m, 'v) cube \<Rightarrow> bool"
  for ms :: "'m list" and ds :: "'v dimension list" where
  root: "cube_init ms ds h0 = (C, h) \<Longrightarrow> reachable ms ds h C"
| sliced: "reachable ms ds h C \<Longrightarrow> slice C E h = (Inr C', h') \<Longrightarrow> reachable ms ds h' C'"
| kept: "reachable ms ds h C \<Longrightarrow> slice (D :: ('m, 'v) cube) E h = (res, h') \<Longrightarrow> reachable ms ds h' C"

subsection \<open>The hooks of a concrete cube class\<close>

text \<open>
  What a subclass of \<^verbatim>\<open>Cube\<close> supplies. \<^verbatim>\<open>get_sample_space(self, *dim_names)\<close>
  returns a sequence of dicts usable as \<^verbatim>\<open>slice(**entry)\<close>. The class \<^verbatim>\<open>Cube\<close>
  itself defines neither \<^verbatim>\<open>sort_key\<close> nor \<^verbatim>\<open>measure\<close>: an absent method is
  \<open>None\<close>, and looking it up raises \<^verbatim>\<open>AttributeError\<close>.
\<close>

record ('m, 'v, 'k, 'r) cube_class =
  get_sample_space :: "('m, 'v) cube \<Rightarrow> 'v store \<Rightarrow> string list \<Rightarrow> error + 'v dict list"
  sort_key_c :: "(('m, 'v) cube \<Rightarrow> 'v store \<Rightarrow> 'v dict \<Rightarrow> error + 'k) option"
  measure_c :: "(('m, 'v) cube \<Rightarrow> 'v store \<Rightarrow> error + 'r) option"

text \<open>The class \<^verbatim>\<open>Cube\<close> as it is: \<^verbatim>\<open>get_sample_space\<close> raises
  \<^verbatim>\<open>NotImplementedError('')\<close>.\<close>

definition Cube_base :: "('m, 'v, 'k, 'r) cube_class" where
  "Cube_base = \<lparr>get_sample_space = (\<lambda>C h dim_names. Inl (NotImplementedError [])),
                sort_key_c = None, measure_c = None\<rparr>"

subsection \<open>iter\_slices\<close>

text \<open>
  \<^verbatim>\<open>def _is_constrained(dim_name): return dim_name in self._constraint\<close> is declared
  in the class without \<^verbatim>\<open>self\<close>. \<^verbatim>\<open>iter_slices\<close> passes the bound method
  \<^verbatim>\<open>self._is_constrained\<close> to \<^verbatim>\<open>filter\<close>, which calls it with one element: the
  function of one parameter receives two arguments (the cube and the element), and
  Python raises \<^verbatim>\<open>TypeError\<close> before the body runs.
\<close>

definition is_constrained_bound :: "('m, 'v) cube \<Rightarrow> string \<Rightarrow> error + bool" where
  "is_constrained_bound C dim_name =
     Inl (TypeError ''_is_constrained() takes exactly 1 argument (2 given)'')"

text \<open>Python 2 \<^verbatim>\<open>filter(function, list)\<close>: the list of the elements on which the
  function is true; the function is called on each element in order, and its first
  exception ends the call.\<close>

fun py_filter :: "('a \<Rightarrow> error + bool) \<Rightarrow> 'a list \<Rightarrow> error + 'a list" where
  "py_filter f [] = Inr []"
| "py_filter f (x # xs) =
     (case f x of
        Inl e \<Rightarrow> Inl e
      | Inr b \<Rightarrow>
          (case py_filter f xs of
             Inl e \<Rightarrow> Inl e
           | Inr ys \<Rightarrow> Inr (if b then x # ys else ys)))"

text \<open>The keys of \<^verbatim>\<open>sorted(xs, key=f)\<close> are computed element by element.\<close>

fun map_err :: "('a \<Rightarrow> error + 'b) \<Rightarrow> 'a list \<Rightarrow> error + 'b list" where
  "map_err f [] = Inr []"
| "map_err f (x # xs) =
     (case f x of
        Inl e \<Rightarrow> Inl e
      | Inr y \<Rightarrow> (case map_err f xs of Inl e \<Rightarrow> Inl e | Inr ys \<Rightarrow> Inr (y # ys)))"

text \<open>\<^verbatim>\<open>sorted(xs, key=f)\<close>: a stable sort by the computed keys.\<close>

definition py_sorted_key :: "('a \<Rightarrow> error + 'k::linorder) \<Rightarrow> 'a list \<Rightarrow> error + 'a list" where
  "py_sorted_key f xs =
     (case map_err f xs of
        Inl e \<Rightarrow> Inl e
      | Inr ks \<Rightarrow> Inr (map snd (sort_key fst (zip ks xs))))"

text \<open>
  \<^verbatim>\<open>try: sample_space = sorted(sample_space, key=self.sort_key)
  except NotImplementedError: pass\<close>.
  The attribute lookup \<^verbatim>\<open>self.sort_key\<close> comes first and raises
  \<^verbatim>\<open>AttributeError\<close> on a class without the method, which the handler does not
  catch; a \<^verbatim>\<open>NotImplementedError\<close> raised by the key function is caught and leaves
  \<^verbatim>\<open>sample_space\<close> (here \<open>space\<close>) as it was.
\<close>

definition sort_sample_space ::
  "('m, 'v, 'k::linorder, 'r) cube_class \<Rightarrow> ('m, 'v) cube \<Rightarrow> 'v store \<Rightarrow> 'v dict list
     \<Rightarrow> error + 'v dict list" where
  "sort_sample_space cls C h space =
     (case sort_key_c cls of
        None \<Rightarrow> Inl (AttributeError ''sort_key'')
      | Some key \<Rightarrow>
          (case py_sorted_key (key C h) space of
             Inl (NotImplementedError msg) \<Rightarrow> Inr space
           | Inl e \<Rightarrow> Inl e
           | Inr sorted_space \<Rightarrow> Inr sorted_space))"

text \<open>\<^verbatim>\<open>for value in sample_space: yield self.slice(**value)\<close>: the yielded cubes,
  and the exception of the first \<^verbatim>\<open>slice\<close> that raises.\<close>

fun yield_slices ::
  "('m, 'v) cube \<Rightarrow> 'v dict list \<Rightarrow> 'v store
     \<Rightarrow> (('m, 'v) cube list \<times> error option) \<times> 'v store" where
  "yield_slices C [] h = (([], None), h)"
| "yield_slices C (entry # rest) h =
     (case slice C entry h of
        (Inl e, h') \<Rightarrow> (([], Some e), h')
      | (Inr slc, h') \<Rightarrow>
          (case yield_slices C rest h' of
             ((slcs, err), h'') \<Rightarrow> ((slc # slcs, err), h'')))"

text \<open>
  \<^verbatim>\<open>Cube.iter_slices(self, *dim_names)\<close>, a generator. The variable the code calls
  \<^verbatim>\<open>free_dim_names\<close> is what \<^verbatim>\<open>filter(self._is_constrained, dim_names)\<close> returns.
  In Python 2 the final \<^verbatim>\<open>raise StopIteration\<close> ends the generator normally.
\<close>

definition iter_slices ::
  "('m, 'v, 'k::linorder, 'r) cube_class \<Rightarrow> ('m, 'v) cube \<Rightarrow> string list \<Rightarrow> 'v store
     \<Rightarrow> (('m, 'v) cube list \<times> error option) \<times> 'v store" where
  "iter_slices cls C names h =
     (case check_dim_names C names of
        Inl e \<Rightarrow> (([], Some e), h)
      | Inr _ \<Rightarrow>
          (case py_filter (is_constrained_bound C) names of
             Inl e \<Rightarrow> (([], Some e), h)
           | Inr free_dim_names \<Rightarrow>
               if free_dim_names = [] then
                 (case deepcopy C h of (cube_copy, h') \<Rightarrow> (([cube_copy], None), h'))
               else
                 (case get_sample_space cls C h free_dim_names of
                    Inl e \<Rightarrow> (([], Some e), h)
                  | Inr space \<Rightarrow>
                      (case sort_sample_space cls C h space of
                         Inl e \<Rightarrow> (([], Some e), h)
                       | Inr sorted_space \<Rightarrow> yield_slices C sorted_space h))))"

subsection \<open>measures\_list\<close>

text \<open>The result of \<^verbatim>\<open>measures_list\<close> is a list whose elements are measure values
  or lists of the same kind.\<close>

datatype 'r nested = Value 'r | Nested "'r nested list"

text \<open>
  \<^verbatim>\<open>_pop_first_dim\<close> tests \<^verbatim>\<open>dim_name not in self.dimensions\<close>: membership in the
  list of the \<^verbatim>\<open>Dimension\<close> objects, decided by \<^verbatim>\<open>==\<close> between the name, a
  string, and each object. \<^verbatim>\<open>Dimension\<close> defines no \<^verbatim>\<open>__eq__\<close>, so equality with
  a \<^verbatim>\<open>Dimension\<close> is identity, and a string is never equal to one. (The sibling
  \<^verbatim>\<open>_check_dim_names\<close> tests membership in \<^verbatim>\<open>self.dim_names\<close>.)
\<close>

definition py_eq_name_dimension :: "string \<Rightarrow> 'v dimension \<Rightarrow> bool" where
  "py_eq_name_dimension dim_name d = False"

text \<open>\<^verbatim>\<open>self.constraint\<close>: the class sets \<^verbatim>\<open>_constraint\<close> and defines no attribute
  \<^verbatim>\<open>constraint\<close>, so the lookup raises \<^verbatim>\<open>AttributeError\<close>.\<close>

definition constraint_attr :: "('m, 'v) cube \<Rightarrow> 'v store \<Rightarrow> error + 'v dict" where
  "constraint_attr C h = Inl (AttributeError ''constraint'')"

text \<open>
  The loop of \<^verbatim>\<open>_pop_first_dim(self, dim_names, free_only=False)\<close> over
  \<^verbatim>\<open>enumerate(dim_names)\<close>; \<open>skipped\<close> holds the names passed over by \<^verbatim>\<open>continue\<close>.
  The result is the popped name (\<open>None\<close> for \<^verbatim>\<open>return None\<close>) and the list
  \<^verbatim>\<open>dim_names\<close> as \<^verbatim>\<open>dim_names.pop(index)\<close> leaves it.
\<close>

fun pop_first_dim_loop ::
  "('m, 'v) cube \<Rightarrow> 'v store \<Rightarrow> bool \<Rightarrow> string list \<Rightarrow> string list
     \<Rightarrow> error + (string option \<times> string list)" where
  "pop_first_dim_loop C h free_only skipped [] = Inr (None, skipped)"
| "pop_first_dim_loop C h free_only skipped (dim_name # rest) =
     (if \<not> list_ex (py_eq_name_dimension dim_name) (dimensions C)
      then Inl (InvalidDimension dim_name)
      else if free_only then
        (case constraint_attr C h of
           Inl e \<Rightarrow> Inl e
         | Inr c \<Rightarrow>
             if dim_name \<in> set (map fst c)
             then pop_first_dim_loop C h free_only (skipped @ [dim_name]) rest
             else Inr (Some dim_name, skipped @ rest))
      else Inr (Some dim_name, skipped @ rest))"

definition pop_first_dim ::
  "('m, 'v) cube \<Rightarrow> 'v store \<Rightarrow> string list \<Rightarrow> bool \<Rightarrow> error + (string option \<times> string list)" where
  "pop_first_dim C h names free_only = pop_first_dim_loop C h free_only [] names"

text \<open>\<^verbatim>\<open>slc.measure()\<close>: the class \<^verbatim>\<open>Cube\<close> defines no method \<^verbatim>\<open>measure\<close>.\<close>

definition measure_call ::
  "('m, 'v, 'k, 'r) cube_class \<Rightarrow> ('m, 'v) cube \<Rightarrow> 'v store \<Rightarrow> error + 'r" where
  "measure_call cls C h =
     (case measure_c cls of None \<Rightarrow> Inl (AttributeError ''measure'') | Some f \<Rightarrow> f C h)"

text \<open>\<^verbatim>\<open>self.iter_slices(next_dim_name)\<close>, where \<^verbatim>\<open>next_dim_name\<close> may be
  \<^verbatim>\<open>None\<close>, which is not a declared name: \<^verbatim>\<open>'invalid dimension %s' % None\<close>.\<close>

definition iter_slices_of ::
  "('m, 'v, 'k::linorder, 'r) cube_class \<Rightarrow> ('m, 'v) cube \<Rightarrow> string option \<Rightarrow> 'v store
     \<Rightarrow> (('m, 'v) cube list \<times> error option) \<times> 'v store" where
  "iter_slices_of cls C next_dim_name h =
     (case next_dim_name of
        None \<Rightarrow> (([], Some (InvalidDimension ''None'')), h)
      | Some n \<Rightarrow> iter_slices cls C [n] h)"

text \<open>\<^verbatim>\<open>for slc in ...: returned_list.append(slc.measure())\<close>.\<close>

fun append_measures ::
  "('m, 'v, 'k, 'r) cube_class \<Rightarrow> ('m, 'v) cube list \<Rightarrow> 'v store \<Rightarrow> 'r nested list
     \<Rightarrow> error + 'r nested list" where
  "append_measures cls [] h returned_list = Inr returned_list"
| "append_measures cls (slc # slcs) h returned_list =
     (case measure_call cls slc h of
        Inl e \<Rightarrow> Inl e
      | Inr r \<Rightarrow> append_measures cls slcs h (returned_list @ [Value r]))"

text \<open>A popped name leaves a shorter list; without \<^verbatim>\<open>free_only\<close>, \<^verbatim>\<open>None\<close> is
  returned for the empty list only. The recursion of \<^verbatim>\<open>measures_list\<close> ends for
  this reason.\<close>

lemma pop_first_dim_loop_shorter:
  "pop_first_dim_loop C h free_only skipped names = Inr (Some n, rest) \<Longrightarrow>
     length rest < length skipped + length names"
proof (induction names arbitrary: skipped)
  case Nil
  then show ?case by simp
next
  case (Cons a names)
  show ?case
  proof (cases "pop_first_dim_loop C h free_only (skipped @ [a]) names = Inr (Some n, rest)")
    case True
    from Cons.IH [OF True] show ?thesis by simp
  next
    case False
    with Cons.prems show ?thesis
      by (auto split: if_splits sum.splits)
  qed
qed

lemma pop_first_dim_shorter:
  "pop_first_dim C h names free_only = Inr (Some n, rest) \<Longrightarrow> length rest < length names"
  using pop_first_dim_loop_shorter [of C h free_only "[]" names n rest]
  by (simp add: pop_first_dim_def)

lemma pop_first_dim_none:
  "pop_first_dim C h names False = Inr (None, rest) \<Longrightarrow> rest = []"
  by (cases names) (auto simp: pop_first_dim_def split: if_splits)

text \<open>
  \<^verbatim>\<open>Cube.measures_list(self, *dim_names)\<close>, with the loop
  \<^verbatim>\<open>for slc in self.iter_slices(next_dim_name):
      returned_list.append(slc.measures_list(*dim_names))\<close> as \<open>append_measures_lists\<close>.
  \<^verbatim>\<open>elif next_dim_name:\<close> is false for \<^verbatim>\<open>None\<close> and for the empty string. An
  exception that ends the generator is raised after the loop body has run on the
  slices yielded before it.
\<close>

function measures_list ::
    "('m, 'v, 'k::linorder, 'r) cube_class \<Rightarrow> ('m, 'v) cube \<Rightarrow> string list \<Rightarrow> 'v store
       \<Rightarrow> (error + 'r nested list) \<times> 'v store"
  and append_measures_lists ::
    "('m, 'v, 'k::linorder, 'r) cube_class \<Rightarrow> ('m, 'v) cube list \<Rightarrow> string list \<Rightarrow> 'v store
       \<Rightarrow> 'r nested list \<Rightarrow> (error + 'r nested list) \<times> 'v store" where
  "measures_list cls C names h =
     (case pop_first_dim C h names False of
        Inl e \<Rightarrow> (Inl e, h)
      | Inr (next_dim_name, dim_names') \<Rightarrow>
          if dim_names' \<noteq> [] then
            (case iter_slices_of cls C next_dim_name h of
               ((slcs, err), h1) \<Rightarrow>
                 (case append_measures_lists cls slcs dim_names' h1 [] of
                    (Inl e, h2) \<Rightarrow> (Inl e, h2)
                  | (Inr returned_list, h2) \<Rightarrow>
                      (case err of
                         Some e \<Rightarrow> (Inl e, h2)
                       | None \<Rightarrow> (Inr returned_list, h2))))
          else if next_dim_name \<noteq> None \<and> next_dim_name \<noteq> Some [] then
            (case iter_slices_of cls C next_dim_name h of
               ((slcs, err), h1) \<Rightarrow>
                 (case append_measures cls slcs h1 [] of
                    Inl e \<Rightarrow> (Inl e, h1)
                  | Inr returned_list \<Rightarrow>
                      (case err of
                         Some e \<Rightarrow> (Inl e, h1)
                       | None \<Rightarrow> (Inr returned_list, h1))))
          else (Inr [], h))"
| "append_measures_lists cls [] dim_names' h returned_list = (Inr returned_list, h)"
| "append_measures_lists cls (slc # slcs) dim_names' h returned_list =
     (case measures_list cls slc dim_names' h of
        (Inl e, h') \<Rightarrow> (Inl e, h')
      | (Inr sub, h') \<Rightarrow>
          append_measures_lists cls slcs dim_names' h' (returned_list @ [Nested sub]))"
  by pat_completeness auto
termination
  apply (relation "inv_image (less_than <*lex*> less_than)
     (\<lambda>x. case x of
        Inl (cls, C, names, h) \<Rightarrow> (length names, 0)
      | Inr (cls, slcs, names, h, acc) \<Rightarrow> (length names, Suc (length slcs)))")
  subgoal by (intro wf_inv_image wf_lex_prod wf_less_than)
  subgoal for cls C names h b x y
    by (cases x) (auto dest: pop_first_dim_shorter pop_first_dim_none)
  subgoal by simp
  subgoal by simp
  done

subsection \<open>compute\<close>

text \<open>
  \<^verbatim>\<open>computed = []
  for measure in self.measures: computed.append(measure.compute(self))
  return tuple(computed)\<close>.
  The method \<^verbatim>\<open>compute\<close> of the measure objects is the parameter \<open>mc\<close>: it reads
  the cube and the store, and returns a result or raises (as \<^verbatim>\<open>Measure.compute\<close>
  itself does). The tuple is the list of its elements.
\<close>

fun compute_loop :: "('m \<Rightarrow> error + 'r) \<Rightarrow> 'm list \<Rightarrow> 'r list \<Rightarrow> error + 'r list" where
  "compute_loop f [] computed = Inr computed"
| "compute_loop f (m # rest) computed =
     (case f m of
        Inl e \<Rightarrow> Inl e
      | Inr r \<Rightarrow> compute_loop f rest (computed @ [r]))"

definition compute ::
  "('m \<Rightarrow> ('m, 'v) cube \<Rightarrow> 'v store \<Rightarrow> error + 'r) \<Rightarrow> ('m, 'v) cube \<Rightarrow> 'v store
     \<Rightarrow> error + 'r list" where
  "compute mc C h = compute_loop (\<lambda>m. mc m C h) (measures_c C) []"

text \<open>\<^verbatim>\<open>Measure.compute\<close> of the base class: \<^verbatim>\<open>raise NotImplementedError('This class
  is virtual')\<close>.\<close>

definition Measure_compute :: "'m \<Rightarrow> ('m, 'v) cube \<Rightarrow> 'v store \<Rightarrow> error + 'r" where
  "Measure_compute m C h = Inl (NotImplementedError ''This class is virtual'')"

subsection \<open>The string representation\<close>

text \<open>\<^verbatim>\<open>', '.join(xs)\<close>.\<close>

fun py_join :: "string \<Rightarrow> string list \<Rightarrow> string" where
  "py_join sep [] = []"
| "py_join sep [x] = x"
| "py_join sep (x # y # ys) = x @ sep @ py_join sep (y # ys)"

text \<open>
  \<^verbatim>\<open>Cube.__repr__\<close>. \<^verbatim>\<open>'%s=%s' % (dim, value)\<close> renders the value with \<^verbatim>\<open>str\<close>,
  the parameter \<open>str\<close>; \<^verbatim>\<open>sorted\<close> on strings is the lexicographic order on bytes;
  \<^verbatim>\<open>sorted(list(set(self.dim_names) - set(self._constraint)))\<close> is the sorted list of
  a set difference, \<^verbatim>\<open>set(self._constraint)\<close> being the set of the keys.
\<close>

definition repr_cube :: "('v \<Rightarrow> string) \<Rightarrow> ('m, 'v) cube \<Rightarrow> 'v store \<Rightarrow> string" where
  "repr_cube str C h =
     (let constr_dimensions =
            sort (map (\<lambda>(dim, value). dim @ ''='' @ str value) (deref h (constraint C)));
          free_dimensions =
            sorted_list_of_set (set (dim_names C) - set (map fst (deref h (constraint C))))
      in ''Cube('' @ py_join '', '' (free_dimensions @ constr_dimensions) @ '')'')"

subsection \<open>Values and example inputs\<close>

text \<open>Constraint values of the examples: Python ints and strings, with \<^verbatim>\<open>str(value)\<close>
  (what \<^verbatim>\<open>'%s' % value\<close> renders).\<close>

datatype pyval = PyInt int | PyStr string

definition digit_char :: "nat \<Rightarrow> char" where
  "digit_char d = ''0123456789'' ! d"

function digits10 :: "nat \<Rightarrow> string" where
  "digits10 n = (if n < 10 then [digit_char n] else digits10 (n div 10) @ [digit_char (n mod 10)])"
  by pat_completeness auto
termination
  by (relation "measure (\<lambda>n. n)") auto

declare digits10.simps [simp del]

fun py_str :: "pyval \<Rightarrow> string" where
  "py_str (PyInt i) = (if i < 0 then ''-'' @ digits10 (nat (- i)) else digits10 (nat i))"
| "py_str (PyStr s) = s"

text \<open>A cube with the dimensions \<open>a\<close>, \<open>b\<close>, \<open>c\<close> and one measure, its constraint dict
  at reference 0; a class whose sample space has two entries for \<open>a\<close> and which has no
  \<^verbatim>\<open>sort_key\<close>; the same class with a \<^verbatim>\<open>sort_key\<close> that ranks every entry alike.\<close>

definition abc_cube :: "(unit, pyval) cube" where
  "abc_cube = \<lparr>measures_c = [()],
     dimensions = [\<lparr>name = ''a'', sample_space = []\<rparr>, \<lparr>name = ''b'', sample_space = []\<rparr>,
                   \<lparr>name = ''c'', sample_space = []\<rparr>],
     constraint = 0\<rparr>"

definition two_entries :: "(unit, pyval, int, pyval) cube_class" where
  "two_entries = \<lparr>get_sample_space = (\<lambda>C h dim_names. Inr [[(''a'', PyInt 2)], [(''a'', PyInt 1)]]),
     sort_key_c = None, measure_c = None\<rparr>"

definition two_entries_keyed :: "(unit, pyval, int, pyval) cube_class" where
  "two_entries_keyed = two_entries\<lparr>sort_key_c := Some (\<lambda>C h entry. Inr 0)\<rparr>"

text \<open>The class \<open>two_entries_keyed\<close> with a method \<^verbatim>\<open>measure\<close> that returns 7.\<close>

definition two_entries_measured :: "(unit, pyval, int, pyval) cube_class" where
  "two_entries_measured = two_entries_keyed\<lparr>measure_c := Some (\<lambda>C h. Inr (PyInt 7))\<rparr>"

text \<open>Measure objects for the examples are numbers: measure 0 is an instance of the
  base class \<^verbatim>\<open>Measure\<close>, a measure \<open>m > 0\<close> returns \<open>m\<close> plus the number of constrained
  dimensions.\<close>

definition example_compute :: "nat \<Rightarrow> (nat, pyval) cube \<Rightarrow> pyval store \<Rightarrow> error + nat" where
  "example_compute m C h =
     (if m = 0 then Measure_compute m C h else Inr (m + length (deref h (constraint C))))"

subsection \<open>Validation\<close>

lemma check_dim_names_ok:
  "check_dim_names C ns = Inr () \<longleftrightarrow> set ns \<subseteq> set (dim_names C)"
  by (induction ns) auto

lemma check_dim_names_error:
  "check_dim_names C ns = Inl e \<Longrightarrow>
     \<exists>k. k \<in> set ns \<and> k \<notin> set (dim_names C) \<and> e = InvalidDimension k"
  by (induction ns) (auto split: if_splits)

lemma check_dim_names_cases:
  "check_dim_names C ns = Inr () \<and> set ns \<subseteq> set (dim_names C) \<or>
   (\<exists>k. k \<in> set ns \<and> k \<notin> set (dim_names C) \<and> check_dim_names C ns = Inl (InvalidDimension k))"
  by (induction ns) auto

lemma InvalidDimension_inject [simp]:
  "InvalidDimension a = InvalidDimension b \<longleftrightarrow> a = b"
  by (simp add: InvalidDimension_def)

subsection \<open>The store under slice\<close>

lemma fold_setitem_length:
  "length (fold (\<lambda>(k, v). setitem r k v) E h) = length h"
  by (induction E arbitrary: h) (auto simp: setitem_def)

lemma fold_setitem_other:
  "r' \<noteq> r \<Longrightarrow> fold (\<lambda>(k, v). setitem r k v) E h ! r' = h ! r'"
  by (induction E arbitrary: h) (auto simp: setitem_def)

lemma fold_setitem_map_of:
  "r < length h \<Longrightarrow>
   map_of (fold (\<lambda>(k, v). setitem r k v) E h ! r) = map_of (h ! r) ++ map_of (rev E)"
proof (induction E arbitrary: h)
  case Nil
  then show ?case by simp
next
  case (Cons kv E)
  obtain k v where kv: "kv = (k, v)" by (cases kv)
  let ?h = "setitem r k v h"
  have len: "r < length ?h" using Cons.prems by (simp add: setitem_def)
  have "map_of (fold (\<lambda>(k, v). setitem r k v) E ?h ! r) = map_of (?h ! r) ++ map_of (rev E)"
    by (rule Cons.IH [OF len])
  moreover have "map_of (?h ! r) = (map_of (h ! r))(k \<mapsto> v)"
    using Cons.prems by (simp add: setitem_def deref_def update_conv')
  ultimately show ?case
    by (simp add: kv map_add_def fun_eq_iff split: option.splits)
qed

lemma map_of_rev_distinct:
  assumes "distinct (map fst xs)"
  shows "map_of (rev xs) = map_of xs"
proof -
  have "distinct (map fst (rev xs))"
    using assms by (simp add: rev_map [symmetric])
  then show ?thesis
    using assms by (simp add: map_of_inject_set)
qed

lemma fold_setitem_keys:
  "r < length h \<Longrightarrow>
   fst ` set (fold (\<lambda>(k, v). setitem r k v) E h ! r) = fst ` set (h ! r) \<union> fst ` set E"
proof (induction E arbitrary: h)
  case Nil
  then show ?case by simp
next
  case (Cons kv E)
  obtain k v where kv: "kv = (k, v)" by (cases kv)
  let ?h = "setitem r k v h"
  have len: "r < length ?h" using Cons.prems by (simp add: setitem_def)
  have "fst ` set (fold (\<lambda>(k, v). setitem r k v) E ?h ! r) = fst ` set (?h ! r) \<union> fst ` set E"
    by (rule Cons.IH [OF len])
  moreover have "fst ` set (?h ! r) = {k} \<union> fst ` set (h ! r)"
    using Cons.prems by (simp add: setitem_def deref_def dom_update)
  ultimately show ?case
    by (auto simp: kv)
qed

lemma slice_ok:
  assumes "set (map fst E) \<subseteq> set (dim_names C)"
  shows "slice C E h =
    (Inr (C\<lparr>constraint := length h\<rparr>),
     fold (\<lambda>(k, v). setitem (length h) k v) E (h @ [h ! constraint C]))"
proof -
  have "check_constraint C E = Inr ()"
    using assms by (simp add: check_constraint_def check_dim_names_ok)
  then show ?thesis
    by (simp add: slice_def deepcopy_def alloc_def deref_def)
qed

lemma slice_error:
  assumes "\<not> set (map fst E) \<subseteq> set (dim_names C)"
  shows "\<exists>k. k \<in> set (map fst E) \<and> k \<notin> set (dim_names C) \<and>
             slice C E h = (Inl (InvalidDimension k), h)"
proof -
  from check_dim_names_cases [of C "map fst E"] assms
  obtain k where "k \<in> set (map fst E)" "k \<notin> set (dim_names C)"
      "check_dim_names C (map fst E) = Inl (InvalidDimension k)"
    by blast
  then show ?thesis
    by (auto simp: slice_def check_constraint_def)
qed

subsection \<open>Slicing\<close>

text \<open>
  Claim C1. For a cube \<open>C\<close> whose constraint dict is allocated, and an extension \<open>E\<close>
  (a dict, so its keys are distinct) whose keys are all declared dimension names of
  \<open>C\<close>, \<^verbatim>\<open>C.slice(**E)\<close> returns a cube \<open>C'\<close>. The constraint dict of \<open>C\<close>, and every
  dict that existed before the call, is unchanged; the constraint of \<open>C'\<close> is a newly
  allocated dict whose mapping is that of \<open>C\<close> merged with \<open>E\<close>, the value of \<open>E\<close>
  winning on every key of \<open>E\<close>.
\<close>

theorem slice_merges_into_copy:
  assumes "set (map fst E) \<subseteq> set (dim_names C)"
    and "distinct (map fst E)"
    and "constraint C < length h"
  shows "\<exists>C' h'. slice C E h = (Inr C', h') \<and>
           deref h' (constraint C) = deref h (constraint C) \<and>
           (\<forall>r < length h. deref h' r = deref h r) \<and>
           constraint C' \<notin> {..< length h} \<and>
           (\<forall>k. map_of (deref h' (constraint C')) k =
                 (case map_of E k of Some v \<Rightarrow> Some v
                  | None \<Rightarrow> map_of (deref h (constraint C)) k))"
proof -
  let ?n = "length h"
  let ?h1 = "h @ [h ! constraint C]"
  let ?h' = "fold (\<lambda>(k, v). setitem ?n k v) E ?h1"
  have eq: "slice C E h = (Inr (C\<lparr>constraint := ?n\<rparr>), ?h')"
    by (rule slice_ok [OF assms(1)])
  have old: "?h' ! r = h ! r" if "r < ?n" for r
  proof -
    have "?h' ! r = ?h1 ! r"
      using that by (intro fold_setitem_other) simp
    then show ?thesis using that by (simp add: nth_append)
  qed
  have "map_of (?h' ! ?n) = map_of (?h1 ! ?n) ++ map_of (rev E)"
    by (intro fold_setitem_map_of) simp
  then have new: "map_of (?h' ! ?n) = map_of (h ! constraint C) ++ map_of E"
    using assms(2) by (simp add: map_of_rev_distinct)
  have "map_of (?h' ! ?n) k =
          (case map_of E k of Some v \<Rightarrow> Some v | None \<Rightarrow> map_of (h ! constraint C) k)" for k
    by (simp add: new map_add_def)
  with eq old assms(3) show ?thesis
    unfolding deref_def by simp
qed

theorem slice_merges_into_copy_witness:
  "set (map fst [(''a'', 2::int), (''b'', 3)]) \<subseteq>
     set (dim_names \<lparr>measures_c = [()], dimensions = [\<lparr>name = ''a'', sample_space = []\<rparr>,
        \<lparr>name = ''b'', sample_space = []\<rparr>], constraint = 0\<rparr>) \<and>
   distinct (map fst [(''a'', 2::int), (''b'', 3)]) \<and>
   constraint \<lparr>measures_c = [()], dimensions = [\<lparr>name = ''a'', sample_space = []\<rparr>,
        \<lparr>name = ''b'', sample_space = []::int list\<rparr>], constraint = 0\<rparr>
     < length [[(''a'', 1::int)]] \<and>
   slice \<lparr>measures_c = [()], dimensions = [\<lparr>name = ''a'', sample_space = []\<rparr>,
        \<lparr>name = ''b'', sample_space = []\<rparr>], constraint = 0\<rparr>
      [(''a'', 2::int), (''b'', 3)] [[(''a'', 1)]] =
     (Inr \<lparr>measures_c = [()], dimensions = [\<lparr>name = ''a'', sample_space = []\<rparr>,
        \<lparr>name = ''b'', sample_space = []\<rparr>], constraint = 1\<rparr>,
      [[(''a'', 1)], [(''a'', 2), (''b'', 3)]])"
  using slice_merges_into_copy [of "[(''a'', 2::int), (''b'', 3)]"
      "\<lparr>measures_c = [()], dimensions = [\<lparr>name = ''a'', sample_space = []\<rparr>,
        \<lparr>name = ''b'', sample_space = []\<rparr>], constraint = 0\<rparr>" "[[(''a'', 1)]]"]
  by (simp add: slice_def check_constraint_def dim_names_def deepcopy_def alloc_def
      deref_def setitem_def InvalidDimension_def)

text \<open>
  Claim C10. When some key of the extension \<open>E\<close> is not a declared dimension name of
  \<open>C\<close>, \<^verbatim>\<open>C.slice(**E)\<close> raises the validation error for such a key and the store is
  exactly the one before the call: no copy has been allocated and no dict, that of \<open>C\<close>
  included, has received any item of \<open>E\<close>.
\<close>

theorem slice_invalid_leaves_store:
  assumes "\<not> set (map fst E) \<subseteq> set (dim_names C)"
  shows "\<exists>k. k \<in> set (map fst E) \<and> k \<notin> set (dim_names C) \<and>
             slice C E h = (Inl (InvalidDimension k), h)"
  by (rule slice_error [OF assms])

theorem slice_invalid_leaves_store_witness:
  "\<not> set (map fst [(''a'', 2::int), (''zz'', 3)]) \<subseteq>
     set (dim_names \<lparr>measures_c = [()], dimensions = [\<lparr>name = ''a'', sample_space = []\<rparr>,
        \<lparr>name = ''b'', sample_space = []\<rparr>], constraint = 0\<rparr>) \<and>
   slice \<lparr>measures_c = [()], dimensions = [\<lparr>name = ''a'', sample_space = []\<rparr>,
        \<lparr>name = ''b'', sample_space = []\<rparr>], constraint = 0\<rparr>
      [(''a'', 2::int), (''zz'', 3)] [[(''a'', 1)]] =
     (Inl (InvalidDimension ''zz''), [[(''a'', 1)]])"
  using slice_invalid_leaves_store [of "[(''a'', 2::int), (''zz'', 3)]"
      "\<lparr>measures_c = [()], dimensions = [\<lparr>name = ''a'', sample_space = []\<rparr>,
        \<lparr>name = ''b'', sample_space = []\<rparr>], constraint = 0\<rparr>" "[[(''a'', 1)]]"]
  by (auto simp: dim_names_def)

subsection \<open>What iter\_slices does\<close>

lemma py_filter_is_constrained:
  "names \<noteq> [] \<Longrightarrow>
   py_filter (is_constrained_bound C) names =
     Inl (TypeError ''_is_constrained() takes exactly 1 argument (2 given)'')"
  by (cases names) (simp_all add: is_constrained_bound_def)

lemma iter_slices_no_names:
  "iter_slices cls C [] h = (([C\<lparr>constraint := length h\<rparr>], None), h @ [h ! constraint C])"
  by (simp add: iter_slices_def deepcopy_def alloc_def deref_def)

lemma iter_slices_declared:
  assumes "names \<noteq> []" and "set names \<subseteq> set (dim_names C)"
  shows "iter_slices cls C names h =
    (([], Some (TypeError ''_is_constrained() takes exactly 1 argument (2 given)'')), h)"
proof -
  have "check_dim_names C names = Inr ()"
    using assms(2) by (simp add: check_dim_names_ok)
  then show ?thesis
    using assms(1) by (simp add: iter_slices_def py_filter_is_constrained)
qed

lemma iter_slices_undeclared:
  assumes "\<not> set names \<subseteq> set (dim_names C)"
  shows "\<exists>k. k \<in> set names \<and> k \<notin> set (dim_names C) \<and>
             iter_slices cls C names h = (([], Some (InvalidDimension k)), h)"
proof -
  from check_dim_names_cases [of C names] assms
  obtain k where "k \<in> set names" "k \<notin> set (dim_names C)"
      "check_dim_names C names = Inl (InvalidDimension k)"
    by blast
  then show ?thesis
    by (auto simp: iter_slices_def)
qed

text \<open>
  Claim C5. A name that is not a declared dimension name makes \<^verbatim>\<open>slice\<close> (as a key of
  the extension \<open>E\<close>) and \<^verbatim>\<open>iter_slices\<close> (as one of \<open>names\<close>) fail with the
  InvalidDimension error, raised for an undeclared name, the store being untouched.
  When all the keys of \<open>E'\<close> are declared \<^verbatim>\<open>slice\<close> returns a cube, and when all
  of \<open>names'\<close> are declared \<^verbatim>\<open>iter_slices\<close> ends with no \<^verbatim>\<open>ValueError\<close> at all.
\<close>

theorem invalid_dimension_raised:
  "(k \<in> fst ` set E \<and> k \<notin> set (dim_names C) \<longrightarrow>
      (\<exists>k'. k' \<notin> set (dim_names C) \<and> slice C E h = (Inl (InvalidDimension k'), h))) \<and>
   (k \<in> set names \<and> k \<notin> set (dim_names C) \<longrightarrow>
      (\<exists>k'. k' \<notin> set (dim_names C) \<and>
         iter_slices cls C names h = (([], Some (InvalidDimension k')), h))) \<and>
   (fst ` set E' \<subseteq> set (dim_names C) \<longrightarrow> (\<exists>C'. fst (slice C E' h) = Inr C')) \<and>
   (set names' \<subseteq> set (dim_names C) \<longrightarrow>
      (\<forall>msg. snd (fst (iter_slices cls C names' h)) \<noteq> Some (ValueError msg)))"
proof (intro conjI impI)
  assume "k \<in> fst ` set E \<and> k \<notin> set (dim_names C)"
  then have "\<not> set (map fst E) \<subseteq> set (dim_names C)" by auto
  from slice_error [OF this, of h]
  show "\<exists>k'. k' \<notin> set (dim_names C) \<and> slice C E h = (Inl (InvalidDimension k'), h)"
    by blast
next
  assume "k \<in> set names \<and> k \<notin> set (dim_names C)"
  then have "\<not> set names \<subseteq> set (dim_names C)" by auto
  from iter_slices_undeclared [OF this, of cls h]
  show "\<exists>k'. k' \<notin> set (dim_names C) \<and>
          iter_slices cls C names h = (([], Some (InvalidDimension k')), h)"
    by blast
next
  assume "fst ` set E' \<subseteq> set (dim_names C)"
  then have "set (map fst E') \<subseteq> set (dim_names C)" by simp
  from slice_ok [OF this, of h] show "\<exists>C'. fst (slice C E' h) = Inr C'"
    by simp
next
  assume decl: "set names' \<subseteq> set (dim_names C)"
  show "\<forall>msg. snd (fst (iter_slices cls C names' h)) \<noteq> Some (ValueError msg)"
  proof (cases "names' = []")
    case True
    then show ?thesis by (simp add: iter_slices_no_names)
  next
    case False
    from iter_slices_declared [OF False decl, of cls h] show ?thesis by simp
  qed
qed

theorem invalid_dimension_raised_witness:
  "(''zz'' \<in> fst ` set [(''zz'', PyInt 1)] \<and> ''zz'' \<notin> set (dim_names abc_cube)) \<and>
   ''zz'' \<in> set [''a'', ''zz''] \<and>
   fst ` set [(''b'', PyInt 1)] \<subseteq> set (dim_names abc_cube) \<and>
   set [''c''] \<subseteq> set (dim_names abc_cube) \<and>
   slice abc_cube [(''zz'', PyInt 1)] [[]] = (Inl (InvalidDimension ''zz''), [[]]) \<and>
   iter_slices two_entries abc_cube [''a'', ''zz''] [[]] =
     (([], Some (InvalidDimension ''zz'')), [[]]) \<and>
   fst (slice abc_cube [(''b'', PyInt 1)] [[]]) = Inr (abc_cube\<lparr>constraint := 1\<rparr>) \<and>
   (\<forall>msg. snd (fst (iter_slices two_entries abc_cube [''c''] [[]])) \<noteq> Some (ValueError msg))"
  using invalid_dimension_raised [of "''zz''" "[(''zz'', PyInt 1)]" abc_cube "[[]]"
      "[''a'', ''zz'']" two_entries "[(''b'', PyInt 1)]" "[''c'']"]
  by (simp add: abc_cube_def dim_names_def slice_def check_constraint_def iter_slices_def
      deepcopy_def alloc_def)

text \<open>
  Claim C2, evaluated. The cube has the declared, unconstrained dimension \<open>a\<close>, and its
  class returns a sample space of two entries; \<^verbatim>\<open>iter_slices('a')\<close> yields no cube and
  ends with the \<^verbatim>\<open>TypeError\<close> of the call of \<^verbatim>\<open>_is_constrained\<close>.
\<close>

theorem iter_slices_free_dimension_raises:
  "get_sample_space two_entries_keyed abc_cube [[]] [''a''] =
     Inr [[(''a'', PyInt 2)], [(''a'', PyInt 1)]] \<and>
   iter_slices two_entries_keyed abc_cube [''a''] [[]] =
     (([], Some (TypeError ''_is_constrained() takes exactly 1 argument (2 given)'')), [[]])"
  by (simp add: two_entries_keyed_def two_entries_def iter_slices_def abc_cube_def
      dim_names_def is_constrained_bound_def)

text \<open>
  Claim C3, evaluated. The dimension \<open>b\<close> is declared and constrained (to 2);
  \<^verbatim>\<open>iter_slices('b')\<close> yields no cube and ends with the same \<^verbatim>\<open>TypeError\<close>.
\<close>

theorem iter_slices_constrained_dimension_raises:
  "iter_slices two_entries_keyed abc_cube [''b''] [[(''b'', PyInt 2)]] =
     (([], Some (TypeError ''_is_constrained() takes exactly 1 argument (2 given)'')),
      [[(''b'', PyInt 2)]])"
  by (simp add: two_entries_keyed_def two_entries_def iter_slices_def abc_cube_def
      dim_names_def is_constrained_bound_def)

text \<open>
  Claim C6, evaluated. On a class without \<^verbatim>\<open>sort_key\<close>, \<^verbatim>\<open>iter_slices('a')\<close> yields
  no cube (the \<^verbatim>\<open>TypeError\<close> above comes first); and the sorting step on its own
  raises \<^verbatim>\<open>AttributeError\<close>, which \<^verbatim>\<open>except NotImplementedError\<close> does not catch.
\<close>

theorem iter_slices_without_sort_key_raises:
  "sort_key_c two_entries = None \<and>
   iter_slices two_entries abc_cube [''a''] [[]] =
     (([], Some (TypeError ''_is_constrained() takes exactly 1 argument (2 given)'')), [[]]) \<and>
   sort_sample_space two_entries abc_cube [[]] [[(''a'', PyInt 2)], [(''a'', PyInt 1)]] =
     Inl (AttributeError ''sort_key'')"
  by (simp add: two_entries_def iter_slices_def abc_cube_def dim_names_def
      is_constrained_bound_def sort_sample_space_def)

subsection \<open>compute\<close>

lemma compute_loop_all:
  assumes "\<forall>i < length ms. f (ms ! i) = Inr (rs ! i)" and "length rs = length ms"
  shows "compute_loop f ms acc = Inr (acc @ rs)"
  using assms
proof (induction ms arbitrary: acc rs)
  case Nil
  then show ?case by simp
next
  case (Cons m ms)
  then obtain r rs' where rs: "rs = r # rs'" by (cases rs) auto
  have head: "f m = Inr r"
    using Cons.prems(1) rs by auto
  have "\<forall>i < length ms. f (ms ! i) = Inr (rs' ! i)"
    using Cons.prems(1) rs by auto
  moreover have "length rs' = length ms"
    using Cons.prems(2) rs by simp
  ultimately have "compute_loop f ms (acc @ [r]) = Inr ((acc @ [r]) @ rs')"
    by (rule Cons.IH)
  with head rs show ?case by simp
qed

lemma compute_loop_first_error:
  assumes "i < length ms" and "f (ms ! i) = Inl e" and "\<forall>j < i. \<exists>r. f (ms ! j) = Inr r"
  shows "compute_loop f ms acc = Inl e"
  using assms
proof (induction ms arbitrary: acc i)
  case Nil
  then show ?case by simp
next
  case (Cons m ms)
  show ?case
  proof (cases i)
    case 0
    with Cons.prems show ?thesis by simp
  next
    case (Suc i')
    from Cons.prems(3) Suc obtain r where r: "f m = Inr r" by fastforce
    have "i' < length ms" using Cons.prems(1) Suc by simp
    moreover have "f (ms ! i') = Inl e" using Cons.prems(2) Suc by simp
    moreover have "\<forall>j < i'. \<exists>r. f (ms ! j) = Inr r"
    proof (intro allI impI)
      fix j assume "j < i'"
      then have "Suc j < i" using Suc by simp
      with Cons.prems(3) have "\<exists>r. f ((m # ms) ! Suc j) = Inr r" by blast
      then show "\<exists>r. f (ms ! j) = Inr r" by simp
    qed
    ultimately have "compute_loop f ms (acc @ [r]) = Inl e"
      by (rule Cons.IH)
    with r show ?thesis by simp
  qed
qed

text \<open>
  Claim C7. When every \<^verbatim>\<open>measures[i].compute(cube)\<close> returns a result,
  \<^verbatim>\<open>compute()\<close> returns the tuple of these results: it has the length of
  \<^verbatim>\<open>measures\<close> and its \<open>i\<close>-th element is the result of the \<open>i\<close>-th measure. The
  measures are evaluated in declared order: when one raises after all the earlier
  ones have returned, its exception is the one \<^verbatim>\<open>compute()\<close> raises.
\<close>

theorem compute_positional:
  "((\<forall>i < length (measures_c C). \<exists>r. mc (measures_c C ! i) C h = Inr r) \<longrightarrow>
      (\<exists>rs. compute mc C h = Inr rs \<and> length rs = length (measures_c C) \<and>
         (\<forall>i < length (measures_c C). mc (measures_c C ! i) C h = Inr (rs ! i)))) \<and>
   (i < length (measures_c D) \<and> mc (measures_c D ! i) D h = Inl e \<and>
      (\<forall>j < i. \<exists>r. mc (measures_c D ! j) D h = Inr r) \<longrightarrow> compute mc D h = Inl e)"
proof (intro conjI impI)
  assume all: "\<forall>i < length (measures_c C). \<exists>r. mc (measures_c C ! i) C h = Inr r"
  let ?ms = "measures_c C"
  let ?rs = "map (\<lambda>m. projr (mc m C h)) ?ms"
  have nth: "\<forall>i < length ?ms. mc (?ms ! i) C h = Inr (?rs ! i)"
  proof (intro allI impI)
    fix i assume i: "i < length ?ms"
    with all obtain r where "mc (?ms ! i) C h = Inr r" by blast
    with i show "mc (?ms ! i) C h = Inr (?rs ! i)" by simp
  qed
  have "compute_loop (\<lambda>m. mc m C h) ?ms [] = Inr ([] @ ?rs)"
    by (rule compute_loop_all) (use nth in simp_all)
  then have "compute mc C h = Inr ?rs"
    by (simp add: compute_def)
  with nth show "\<exists>rs. compute mc C h = Inr rs \<and> length rs = length ?ms \<and>
         (\<forall>i < length ?ms. mc (?ms ! i) C h = Inr (rs ! i))"
    by (intro exI [of _ ?rs]) simp
next
  assume "i < length (measures_c D) \<and> mc (measures_c D ! i) D h = Inl e \<and>
      (\<forall>j < i. \<exists>r. mc (measures_c D ! j) D h = Inr r)"
  then show "compute mc D h = Inl e"
    unfolding compute_def by (intro compute_loop_first_error [of i]) simp_all
qed

theorem compute_positional_witness:
  "example_compute 1 \<lparr>measures_c = [1, 2::nat], dimensions = [], constraint = 0\<rparr>
      [[(''a'', PyInt 1)]] = Inr 2 \<and>
   example_compute 2 \<lparr>measures_c = [1, 2::nat], dimensions = [], constraint = 0\<rparr>
      [[(''a'', PyInt 1)]] = Inr 3 \<and>
   compute example_compute \<lparr>measures_c = [1, 2::nat], dimensions = [], constraint = 0\<rparr>
      [[(''a'', PyInt 1)]] = Inr [2, 3] \<and>
   example_compute (measures_c \<lparr>measures_c = [1, 0, 2::nat], dimensions = [], constraint = 0\<rparr> ! 1)
      \<lparr>measures_c = [1, 0, 2::nat], dimensions = [], constraint = 0\<rparr> [[(''a'', PyInt 1)]] =
      Inl (NotImplementedError ''This class is virtual'') \<and>
   compute example_compute \<lparr>measures_c = [1, 0, 2::nat], dimensions = [], constraint = 0\<rparr>
      [[(''a'', PyInt 1)]] = Inl (NotImplementedError ''This class is virtual'')"
  using compute_positional [of "\<lparr>measures_c = [1, 2::nat], dimensions = [], constraint = 0\<rparr>"
     example_compute "[[(''a'', PyInt 1)]]" 1
     "\<lparr>measures_c = [1, 0, 2::nat], dimensions = [], constraint = 0\<rparr>"
     "NotImplementedError ''This class is virtual''"]
  by (simp add: example_compute_def Measure_compute_def compute_def deref_def less_Suc_eq)

subsection \<open>The string representation\<close>

lemma sort_mset_cong:
  fixes xs ys :: "'a::linorder list"
  assumes "mset xs = mset ys"
  shows "sort xs = sort ys"
  by (rule properties_for_sort) (simp_all add: assms)

lemma repr_cube_order_free:
  assumes "set (dim_names C) = set (dim_names C')"
    and "mset (deref h (constraint C)) = mset (deref h' (constraint C'))"
  shows "repr_cube str C h = repr_cube str C' h'"
proof -
  let ?f = "\<lambda>(dim, value). dim @ ''='' @ str value"
  have "mset (map ?f (deref h (constraint C))) = mset (map ?f (deref h' (constraint C')))"
    using assms(2) by (metis mset_map)
  then have constr: "sort (map ?f (deref h (constraint C))) = sort (map ?f (deref h' (constraint C')))"
    by (rule sort_mset_cong)
  have "set (deref h (constraint C)) = set (deref h' (constraint C'))"
    using assms(2) by (metis set_mset_mset)
  then have "set (map fst (deref h (constraint C))) = set (map fst (deref h' (constraint C')))"
    by simp
  with assms(1) constr show ?thesis
    unfolding repr_cube_def Let_def by presburger
qed

lemma py_join_explicit:
  "py_join sep xs =
     (case xs of [] \<Rightarrow> [] | x # ys \<Rightarrow> x @ concat (map (\<lambda>y. sep @ y) ys))"
  by (induction sep xs rule: py_join.induct) simp_all

text \<open>
  Claim C9. The representation is \<^verbatim>\<open>Cube(...)\<close> around a list of items, the first
  item written as it is and every later one after the separator \<^verbatim>\<open>', '\<close>: the free
  dimension names, sorted and without repetition, followed by the sorted
  \<^verbatim>\<open>name=value\<close> strings of the constraint items. It is determined by the set of
  dimension names and the items of the constraint, whatever the order in which the
  lists and the dict iterate. With the dimensions \<open>a\<close>, \<open>b\<close>, \<open>c\<close> and the constraint
  \<open>b = 2\<close> it is \<^verbatim>\<open>Cube(a, c, b=2)\<close>.
\<close>

theorem repr_canonical:
  "(\<exists>free constr.
      repr_cube str C h =
        ''Cube('' @
        (case free @ constr of [] \<Rightarrow> []
         | x # ys \<Rightarrow> x @ concat (map (\<lambda>y. '', '' @ y) ys)) @ '')'' \<and>
      sorted free \<and> distinct free \<and>
      set free = set (dim_names C) - fst ` set (deref h (constraint C)) \<and>
      sorted constr \<and>
      mset constr = image_mset (\<lambda>(k, v). k @ ''='' @ str v) (mset (deref h (constraint C)))) \<and>
   (set (dim_names C) = set (dim_names C') \<and>
    mset (deref h (constraint C)) = mset (deref h' (constraint C')) \<longrightarrow>
      repr_cube str C h = repr_cube str C' h') \<and>
   repr_cube py_str abc_cube [[(''b'', PyInt 2)]] = ''Cube(a, c, b=2)''"
proof (intro conjI impI)
  let ?c = "deref h (constraint C)"
  let ?free = "sorted_list_of_set (set (dim_names C) - set (map fst ?c))"
  let ?constr = "sort (map (\<lambda>(k, v). k @ ''='' @ str v) ?c)"
  have "repr_cube str C h =
      ''Cube('' @
      (case ?free @ ?constr of [] \<Rightarrow> []
       | x # ys \<Rightarrow> x @ concat (map (\<lambda>y. '', '' @ y) ys)) @ '')''"
    by (simp add: repr_cube_def py_join_explicit)
  moreover have "sorted ?free" and "distinct ?free" by simp_all
  moreover have "set ?free = set (dim_names C) - fst ` set ?c" by simp
  moreover have "sorted ?constr" by simp
  moreover have "mset ?constr = image_mset (\<lambda>(k, v). k @ ''='' @ str v) (mset ?c)" by simp
  ultimately show "\<exists>free constr.
      repr_cube str C h =
        ''Cube('' @
        (case free @ constr of [] \<Rightarrow> []
         | x # ys \<Rightarrow> x @ concat (map (\<lambda>y. '', '' @ y) ys)) @ '')'' \<and>
      sorted free \<and> distinct free \<and>
      set free = set (dim_names C) - fst ` set ?c \<and>
      sorted constr \<and>
      mset constr = image_mset (\<lambda>(k, v). k @ ''='' @ str v) (mset ?c)"
    by blast
next
  assume "set (dim_names C) = set (dim_names C') \<and>
    mset (deref h (constraint C)) = mset (deref h' (constraint C'))"
  then show "repr_cube str C h = repr_cube str C' h'"
    by (intro repr_cube_order_free) simp_all
next
  show "repr_cube py_str abc_cube [[(''b'', PyInt 2)]] = ''Cube(a, c, b=2)''"
    by code_simp
qed

theorem repr_canonical_witness:
  "set (dim_names abc_cube) = set (dim_names abc_cube) \<and>
   mset (deref [[(''a'', PyInt 1), (''b'', PyInt 2)]] (constraint abc_cube)) =
     mset (deref [[(''b'', PyInt 2), (''a'', PyInt 1)]] (constraint abc_cube)) \<and>
   repr_cube py_str abc_cube [[(''a'', PyInt 1), (''b'', PyInt 2)]] = ''Cube(c, a=1, b=2)'' \<and>
   repr_cube py_str abc_cube [[(''b'', PyInt 2), (''a'', PyInt 1)]] = ''Cube(c, a=1, b=2)''"
proof -
  have hyp: "set (dim_names abc_cube) = set (dim_names abc_cube) \<and>
     mset (deref [[(''a'', PyInt 1), (''b'', PyInt 2)]] (constraint abc_cube)) =
       mset (deref [[(''b'', PyInt 2), (''a'', PyInt 1)]] (constraint abc_cube))"
    by (simp add: deref_def abc_cube_def)
  have one: "repr_cube py_str abc_cube [[(''a'', PyInt 1), (''b'', PyInt 2)]] = ''Cube(c, a=1, b=2)''"
    by code_simp
  from repr_canonical [of py_str abc_cube "[[(''a'', PyInt 1), (''b'', PyInt 2)]]" abc_cube
      "[[(''b'', PyInt 2), (''a'', PyInt 1)]]"] hyp
  have "repr_cube py_str abc_cube [[(''a'', PyInt 1), (''b'', PyInt 2)]] =
        repr_cube py_str abc_cube [[(''b'', PyInt 2), (''a'', PyInt 1)]]"
    by blast
  with one hyp show ?thesis by simp
qed

subsection \<open>Cubes derived from a root\<close>

lemma slice_cases:
  "(\<exists>e. slice C E h = (Inl e, h)) \<or>
   (set (map fst E) \<subseteq> set (dim_names C) \<and>
    slice C E h = (Inr (C\<lparr>constraint := length h\<rparr>),
       fold (\<lambda>(k, v). setitem (length h) k v) E (h @ [h ! constraint C])))"
proof (cases "set (map fst E) \<subseteq> set (dim_names C)")
  case True
  then show ?thesis using slice_ok [OF True, of h] by simp
next
  case False
  from slice_error [OF False, of h] show ?thesis by blast
qed

lemma slice_keeps_store:
  assumes "slice D E h = (res, h')" and "r < length h"
  shows "h' ! r = h ! r \<and> length h \<le> length h'"
proof -
  from slice_cases [of D E h] show ?thesis
  proof
    assume "\<exists>e. slice D E h = (Inl e, h)"
    with assms show ?thesis by auto
  next
    assume "set (map fst E) \<subseteq> set (dim_names D) \<and>
      slice D E h = (Inr (D\<lparr>constraint := length h\<rparr>),
        fold (\<lambda>(k, v). setitem (length h) k v) E (h @ [h ! constraint D]))"
    with assms(1) have h': "h' = fold (\<lambda>(k, v). setitem (length h) k v) E (h @ [h ! constraint D])"
      by simp
    have "h' ! r = (h @ [h ! constraint D]) ! r"
      unfolding h' using assms(2) by (intro fold_setitem_other) simp
    moreover have "length h' = Suc (length h)"
      unfolding h' by (simp add: fold_setitem_length)
    ultimately show ?thesis using assms(2) by (simp add: nth_append)
  qed
qed

lemma reachable_inv:
  assumes "reachable ms ds h C"
  shows "constraint C < length h \<and>
         fst ` set (deref h (constraint C)) \<subseteq> set (dim_names C) \<and>
         dimensions C = ds \<and> measures_c C = ms"
  using assms
proof (induction rule: reachable.induct)
  case (root h0 C h)
  then show ?case
    by (auto simp: cube_init_def alloc_def deref_def)
next
  case (sliced h C E C' h')
  from slice_cases [of C E h] sliced.hyps(2)
  have keys: "set (map fst E) \<subseteq> set (dim_names C)"
    and C': "C' = C\<lparr>constraint := length h\<rparr>"
    and h': "h' = fold (\<lambda>(k, v). setitem (length h) k v) E (h @ [h ! constraint C])"
    by auto
  have "fst ` set (h' ! length h) = fst ` set ((h @ [h ! constraint C]) ! length h) \<union> fst ` set E"
    unfolding h' by (intro fold_setitem_keys) simp
  then have "fst ` set (h' ! length h) \<subseteq> set (dim_names C)"
    using keys sliced.IH by (auto simp: deref_def)
  moreover have "length h' = Suc (length h)"
    unfolding h' by (simp add: fold_setitem_length)
  ultimately show ?case
    using sliced.IH by (simp add: C' deref_def dim_names_def)
next
  case (kept h C D E res h')
  from kept.IH have r: "constraint C < length h" by simp
  from slice_keeps_store [OF kept.hyps(2) r] kept.IH show ?case
    by (simp add: deref_def)
qed

text \<open>
  Claim C4. A newly constructed cube has an empty constraint. For every cube derived
  from a root cube built with the measures \<open>ms\<close> and the dimensions \<open>ds\<close> by successful
  calls of \<^verbatim>\<open>slice\<close>, every key of its constraint dict is one of its declared
  dimension names, and its dimensions and measures are \<open>ds\<close> and \<open>ms\<close>.
\<close>

theorem reachable_invariant:
  "deref (snd (cube_init ms ds h0)) (constraint (fst (cube_init ms ds h0))) = [] \<and>
   (reachable ms ds h C \<longrightarrow>
      fst ` set (deref h (constraint C)) \<subseteq> set (dim_names C) \<and>
      dimensions C = ds \<and> measures_c C = ms)"
  using reachable_inv [of ms ds h C]
  by (simp add: cube_init_def alloc_def deref_def)

theorem reachable_invariant_witness:
  "reachable [()] (dimensions abc_cube) [[], [(''a'', PyInt 1)]] (abc_cube\<lparr>constraint := 1\<rparr>) \<and>
   fst ` set (deref [[], [(''a'', PyInt 1)]] (constraint (abc_cube\<lparr>constraint := 1\<rparr>)))
     \<subseteq> set (dim_names (abc_cube\<lparr>constraint := 1\<rparr>)) \<and>
   measures_c (abc_cube\<lparr>constraint := 1\<rparr>) = [()]"
proof -
  have "cube_init [()] (dimensions abc_cube) [] = (abc_cube, [[]::pyval dict])"
    by (simp add: cube_init_def alloc_def abc_cube_def)
  then have "reachable [()] (dimensions abc_cube) [[]::pyval dict] abc_cube"
    by (rule reachable.root)
  moreover have "slice abc_cube [(''a'', PyInt 1)] [[]] =
      (Inr (abc_cube\<lparr>constraint := 1\<rparr>), [[], [(''a'', PyInt 1)]])"
    by (simp add: slice_def check_constraint_def dim_names_def abc_cube_def deepcopy_def
        alloc_def deref_def setitem_def)
  ultimately have r: "reachable [()] (dimensions abc_cube) [[], [(''a'', PyInt 1)]]
      (abc_cube\<lparr>constraint := 1\<rparr>)"
    by (rule reachable.sliced)
  with reachable_invariant [of "[()]" "dimensions abc_cube" "[]" "[[], [(''a'', PyInt 1)]]"
      "abc_cube\<lparr>constraint := 1\<rparr>"]
  show ?thesis by simp
qed

subsection \<open>measures\_list\<close>

lemma measures_list_names:
  "names \<noteq> [] \<Longrightarrow>
   measures_list cls C names h = (Inl (InvalidDimension (hd names)), h)"
  by (cases names) (simp_all add: pop_first_dim_def py_eq_name_dimension_def list_ex_iff)

lemma measures_list_no_names:
  "measures_list cls C [] h = (Inr [], h)"
  by (simp add: pop_first_dim_def)

text \<open>
  Claim C8, evaluated. The cube has the declared, unconstrained dimension \<open>a\<close>, its
  class a sample space of two entries and a method \<^verbatim>\<open>measure\<close>;
  \<^verbatim>\<open>measures_list('a')\<close> returns no list: \<^verbatim>\<open>_pop_first_dim\<close> raises
  \<^verbatim>\<open>ValueError('invalid dimension a')\<close>, since it looks the name up among the
  \<^verbatim>\<open>Dimension\<close> objects.
\<close>

theorem measures_list_declared_name_raises:
  "''a'' \<in> set (dim_names abc_cube) \<and>
   pop_first_dim abc_cube [[]] [''a''] False = Inl (InvalidDimension ''a'') \<and>
   measures_list two_entries_measured abc_cube [''a''] [[]] = (Inl (InvalidDimension ''a''), [[]])"
  by (simp add: pop_first_dim_def py_eq_name_dimension_def list_ex_iff abc_cube_def
      dim_names_def)

end
